theory Spec2Isabelle
  imports Complex_Main
begin

section \<open>The report page: \<^verbatim>\<open>src/app/report/[userId]/page.tsx\<close>\<close>

text \<open>
  The repository is one React component, \<^verbatim>\<open>ReportPage\<close>.  Its \<^verbatim>\<open>useState\<close> cells
  become the record \<open>page\<close>, each handler becomes a function on that record that also
  returns the effects it issues, and the browser (timers, network, geolocation, the
  user) is an explicit environment: a clock, a timer table and a stream of events.

  Strings are \<^typ>\<open>string\<close>, one \<^typ>\<open>char\<close> per UTF-16 code unit, so the model speaks
  about text whose code units are below 256.  The route parameter and the query string
  are those of the first render and stay as they are while the page is mounted: nothing
  in the component navigates.
\<close>

subsection \<open>Numbers and \<^verbatim>\<open>parseFloat\<close>\<close>

text \<open>
  A JavaScript number is \<open>NaN\<close>, an infinity or a finite value.  A finite value is
  carried as the rational it denotes; the two zeros are both \<open>Finite 0\<close> (the program
  never tells them apart: both are falsy).
\<close>

datatype number = NaN | Finite rat | PosInfinity | NegInfinity

definition truthy_number :: "number \<Rightarrow> bool" where
  \<comment> \<open>ToBoolean on a number: false for \<open>NaN\<close>, \<open>+0\<close> and \<open>-0\<close>.\<close>
  "truthy_number n = (case n of NaN \<Rightarrow> False | Finite q \<Rightarrow> q \<noteq> 0 | _ \<Rightarrow> True)"

definition is_digit :: "char \<Rightarrow> bool" where
  "is_digit c = (c \<in> set ''0123456789'')"

definition is_space :: "char \<Rightarrow> bool" where
  \<comment> \<open>WhiteSpace and LineTerminator below 256: TAB, LF, VT, FF, CR, SP, NBSP.\<close>
  "is_space c = (c \<in> {CHR 0x09, CHR 0x0A, CHR 0x0B, CHR 0x0C, CHR 0x0D, CHR 0x20, CHR 0xA0})"

definition digit_val :: "char \<Rightarrow> nat" where
  "digit_val c = of_char c - 48"

definition digits_val :: "string \<Rightarrow> nat" where
  "digits_val ds = foldl (\<lambda>acc c. 10 * acc + digit_val c) 0 ds"

definition scale10 :: "rat \<Rightarrow> int \<Rightarrow> rat" where
  "scale10 q e = (if 0 \<le> e then q * 10 ^ nat e else q / 10 ^ nat (- e))"

definition ExponentPart :: "string \<Rightarrow> int" where
  \<comment> \<open>\<open>e\<close> or \<open>E\<close>, an optional sign and digits.  Without a digit no exponent is read,
      which is the exponent 0 that the empty digit string gives.\<close>
  "ExponentPart s =
     (case s of
        [] \<Rightarrow> 0
      | c # t \<Rightarrow>
          if c = CHR ''e'' \<or> c = CHR ''E'' then
            (case t of
               [] \<Rightarrow> 0
             | d # u \<Rightarrow>
                 if d = CHR ''-'' then - int (digits_val (takeWhile is_digit u))
                 else if d = CHR ''+'' then int (digits_val (takeWhile is_digit u))
                 else int (digits_val (takeWhile is_digit t)))
          else 0)"

definition round_range :: "rat \<Rightarrow> number" where
  \<comment> \<open>The range of binary64 under round-to-nearest-even: a magnitude of at most
      \<open>2^-1075\<close> rounds to zero, one of at least \<open>2^1024 - 2^970\<close> to an infinity.
      Rounding of the 53-bit significand is not modelled.\<close>
  "round_range q =
     (if \<bar>q\<bar> \<le> 1 / 2 ^ 1075 then Finite 0
      else if 2 ^ 1024 - 2 ^ 970 \<le> q then PosInfinity
      else if q \<le> - (2 ^ 1024 - 2 ^ 970) then NegInfinity
      else Finite q)"

definition StrUnsignedDecimalLiteral :: "string \<Rightarrow> number" where
  \<comment> \<open>The longest prefix that is \<open>Infinity\<close>, \<open>digits [. [digits]] [exponent]\<close> or
      \<open>. digits [exponent]\<close>; \<open>NaN\<close> when there is none.\<close>
  "StrUnsignedDecimalLiteral s =
     (if take 8 s = ''Infinity'' then PosInfinity
      else
        let ip = takeWhile is_digit s;
            r = dropWhile is_digit s;
            fp = (case r of [] \<Rightarrow> [] | c # t \<Rightarrow> if c = CHR ''.'' then takeWhile is_digit t else []);
            r' = (case r of [] \<Rightarrow> [] | c # t \<Rightarrow> if c = CHR ''.'' then dropWhile is_digit t else r)
        in if ip = [] \<and> fp = [] then NaN
           else round_range
                  (scale10 (of_nat (digits_val (ip @ fp))) (ExponentPart r' - int (length fp))))"

definition negate :: "number \<Rightarrow> number" where
  "negate n = (case n of NaN \<Rightarrow> NaN | Finite q \<Rightarrow> Finite (- q)
               | PosInfinity \<Rightarrow> NegInfinity | NegInfinity \<Rightarrow> PosInfinity)"

definition parseFloat :: "string \<Rightarrow> number" where
  \<comment> \<open>The platform's \<^verbatim>\<open>parseFloat\<close>: leading white space is dropped, then the longest
      prefix that is a signed decimal literal is read.\<close>
  "parseFloat s =
     (case dropWhile is_space s of
        [] \<Rightarrow> NaN
      | c # t \<Rightarrow>
          if c = CHR ''-'' then negate (StrUnsignedDecimalLiteral t)
          else if c = CHR ''+'' then StrUnsignedDecimalLiteral t
          else StrUnsignedDecimalLiteral (c # t))"

subsection \<open>Values sent and received\<close>

text \<open>
  The object handed to \<^verbatim>\<open>JSON.stringify\<close> is an ordered list of named fields.  A
  response body is text; what \<^verbatim>\<open>JSON.parse\<close> makes of that text is the platform's
  answer and travels with the response.  A parsed object lists its own properties, each
  name once.  A parsed number is carried as the text \<^verbatim>\<open>ToString\<close> gives it, which is
  \<^verbatim>\<open>"0"\<close> exactly for the two zeros.
\<close>

datatype js_value = Str string | Num number

datatype json =
    JNull
  | JBool bool
  | JNumber string
  | JString string
  | JArray "json list"
  | JObject "(string \<times> json) list"

datatype parse_outcome = SyntaxError | Parsed json

definition truthy_json :: "json \<Rightarrow> bool" where
  \<comment> \<open>ToBoolean.  \<^verbatim>\<open>JSON.parse\<close> never gives \<^verbatim>\<open>NaN\<close>, so the only falsy numbers are the
      zeros.\<close>
  "truthy_json v =
     (case v of
        JNull \<Rightarrow> False
      | JBool b \<Rightarrow> b
      | JNumber r \<Rightarrow> r \<noteq> ''0''
      | JString s \<Rightarrow> s \<noteq> []
      | JArray _ \<Rightarrow> True
      | JObject _ \<Rightarrow> True)"

fun join_comma :: "string list \<Rightarrow> string" where
  "join_comma [] = []"
| "join_comma [x] = x"
| "join_comma (x # y # ys) = x @ '','' @ join_comma (y # ys)"

fun ToString :: "json \<Rightarrow> string option" where
  \<comment> \<open>\<open>None\<close> is a TypeError: an object with an own property \<open>toString\<close>, which after
      \<^verbatim>\<open>JSON.parse\<close> is never a function, cannot be converted.  An array is joined with
      commas, \<^verbatim>\<open>null\<close> elements giving the empty text.\<close>
  "ToString JNull = Some ''null''"
| "ToString (JBool b) = Some (if b then ''true'' else ''false'')"
| "ToString (JNumber r) = Some r"
| "ToString (JString s) = Some s"
| "ToString (JArray xs) =
     map_option join_comma (those (map (\<lambda>x. if x = JNull then Some [] else ToString x) xs))"
| "ToString (JObject kvs) =
     (if map_of kvs ''toString'' = None then Some ''[object Object]'' else None)"

definition digit_char :: "nat \<Rightarrow> char" where
  "digit_char n = ''0123456789'' ! (n mod 10)"

fun show_nat :: "nat \<Rightarrow> string" where
  \<comment> \<open>The decimal digits of a natural number, as a template literal prints it.\<close>
  "show_nat n = (if n < 10 then [digit_char n] else show_nat (n div 10) @ [digit_char n])"

declare show_nat.simps [simp del]

fun includes_str :: "string \<Rightarrow> string \<Rightarrow> bool" where
  \<comment> \<open>\<^verbatim>\<open>s.includes(sub)\<close>\<close>
  "includes_str [] sub = (sub = [])"
| "includes_str (c # cs) sub = (take (length sub) (c # cs) = sub \<or> includes_str cs sub)"

subsection \<open>Requests, responses and effects\<close>

record request =
  url :: string
  http_method :: string
  headers :: "(string \<times> string) list"
  body :: "(string \<times> js_value) list option"

text \<open>
  A response: \<^verbatim>\<open>response.ok\<close>, \<^verbatim>\<open>response.status\<close>, the text of the body, and what
  \<^verbatim>\<open>JSON.parse\<close> does on that text.
\<close>

record response =
  ok :: bool
  status :: nat
  textResponse :: string
  JSON_parse :: parse_outcome

text \<open>
  \<open>rejected m\<close>: \<^verbatim>\<open>fetch\<close> or \<^verbatim>\<open>response.text()\<close> rejects with an error whose message is
  \<open>m\<close>; both are awaited inside the same \<^verbatim>\<open>try\<close>.
\<close>

datatype fetch_outcome = rejected string | responded response

datatype effect =
    fetch request
  | getCurrentPosition bool
  | console_log string
  | console_warn string
  | console_error string
  | preventDefault

definition is_fetch :: "effect \<Rightarrow> bool" where
  "is_fetch e = (case e of fetch _ \<Rightarrow> True | _ \<Rightarrow> False)"

definition is_geolocation :: "effect \<Rightarrow> bool" where
  "is_geolocation e = (case e of getCurrentPosition _ \<Rightarrow> True | _ \<Rightarrow> False)"

subsection \<open>The component's state\<close>

text \<open>
  \<open>coordinate\<close> is the type of \<^verbatim>\<open>selectedLocation\<close>, \<open>place\<close> that of a suggestion (its field
  \<^verbatim>\<open>lat\<close> is \<open>place_lat\<close> here, the name \<open>lat\<close> being taken), \<open>coords\<close> that of
  \<^verbatim>\<open>position.coords\<close>.  \<open>page\<close> holds the state cells in source order, after the three
  constants of a render that the handlers and effects read: \<^verbatim>\<open>userId\<close>,
  \<^verbatim>\<open>latFromQuery\<close> and \<^verbatim>\<open>lngFromQuery\<close>.  The rating is an integer: every writer stores
  one.
\<close>

record coordinate =
  lat :: number
  lng :: number

record place =
  place_lat :: string
  lon :: string
  display_name :: string

record coords =
  latitude :: number
  longitude :: number

record page =
  userId :: string
  latFromQuery :: "number option"
  lngFromQuery :: "number option"
  selectedLocation :: "coordinate option"
  description :: string
  submitMessage :: string
  submitting :: bool
  searchQuery :: string
  suggestions :: "place list"
  isClient :: bool
  rating :: int
  hoverRating :: int

definition queryNumber :: "string option \<Rightarrow> number option" where
  \<comment> \<open>\<^verbatim>\<open>latParam ? parseFloat(latParam) : null\<close>: a missing or empty parameter is null.\<close>
  "queryNumber param =
     (case param of None \<Rightarrow> None | Some s \<Rightarrow> if s \<noteq> [] then Some (parseFloat s) else None)"

definition truthy_query :: "number option \<Rightarrow> bool" where
  "truthy_query v = (case v of None \<Rightarrow> False | Some n \<Rightarrow> truthy_number n)"

definition initialLocation :: "number option \<Rightarrow> number option \<Rightarrow> coordinate option" where
  \<comment> \<open>\<^verbatim>\<open>latFromQuery && lngFromQuery ? { lat: latFromQuery, lng: lngFromQuery } : null\<close>\<close>
  "initialLocation a b =
     (if truthy_query a \<and> truthy_query b then
        (case (a, b) of (Some x, Some y) \<Rightarrow> Some \<lparr>lat = x, lng = y\<rparr> | _ \<Rightarrow> None)
      else None)"

definition ReportPage :: "string \<Rightarrow> string option \<Rightarrow> string option \<Rightarrow> page" where
  \<comment> \<open>The first render: the route parameter, the query parameters \<open>lat\<close> and \<open>lng\<close>, and
      the initial value of every state cell.\<close>
  "ReportPage uid latParam lngParam =
     \<lparr>userId = uid,
      latFromQuery = queryNumber latParam,
      lngFromQuery = queryNumber lngParam,
      selectedLocation = initialLocation (queryNumber latParam) (queryNumber lngParam),
      description = [],
      submitMessage = [],
      submitting = False,
      searchQuery = [],
      suggestions = [],
      isClient = False,
      rating = 0,
      hoverRating = 0\<rparr>"

definition geolocation_effect :: "bool \<Rightarrow> page \<Rightarrow> effect list" where
  \<comment> \<open>The second \<^verbatim>\<open>useEffect\<close>; the flag is \<^verbatim>\<open>"geolocation" in navigator\<close>.\<close>
  "geolocation_effect has_geolocation p =
     (if \<not> truthy_query (latFromQuery p) \<and> \<not> truthy_query (lngFromQuery p) then
        (if has_geolocation then [getCurrentPosition True] else [])
      else [])"

definition position_success :: "coords \<Rightarrow> page \<Rightarrow> page \<times> effect list" where
  "position_success c p =
     (p\<lparr>selectedLocation := Some \<lparr>lat = latitude c, lng = longitude c\<rparr>\<rparr>, [])"

definition position_error :: "page \<Rightarrow> page \<times> effect list" where
  "position_error p = (p, [console_warn ''Geolocation error:''])"

subsection \<open>Place search\<close>

definition hex_digit :: "nat \<Rightarrow> char" where
  "hex_digit n = ''0123456789ABCDEF'' ! (n mod 16)"

definition percent :: "nat \<Rightarrow> string" where
  "percent b = [CHR ''%'', hex_digit (b div 16), hex_digit b]"

definition unreserved :: "char \<Rightarrow> bool" where
  "unreserved c =
     (c \<in> set ''ABCDEFGHIJKLMNOPQRSTUVWXYZabcdefghijklmnopqrstuvwxyz0123456789-_.!~*'()'')"

definition encodeURIComponent :: "string \<Rightarrow> string" where
  \<comment> \<open>A code unit below 128 is one UTF-8 byte, one from 128 to 255 is two.\<close>
  "encodeURIComponent s =
     concat (map (\<lambda>c. if unreserved c then [c]
                       else if of_char c < (128::nat) then percent (of_char c)
                       else percent (192 + of_char c div 64) @ percent (128 + of_char c mod 64)) s)"

definition search_request :: "string \<Rightarrow> request" where
  "search_request q =
     \<lparr>url = ''https://nominatim.openstreetmap.org/search?format=json&q=''
              @ encodeURIComponent q @ ''&countrycodes=in'',
      http_method = ''GET'',
      headers = [],
      body = None\<rparr>"

definition search_timer :: "string \<Rightarrow> page \<Rightarrow> page \<times> effect list" where
  \<comment> \<open>The callback given to \<^verbatim>\<open>setTimeout\<close>; it closes over the query of its render.\<close>
  "search_timer q p =
     (if length q > 2 then (p, [fetch (search_request q)])
      else (p\<lparr>suggestions := []\<rparr>, []))"

definition search_settled :: "place list option \<Rightarrow> page \<Rightarrow> page \<times> effect list" where
  \<comment> \<open>\<^verbatim>\<open>.then((data) => setSuggestions(data))\<close>, \<^verbatim>\<open>.catch(() => setSuggestions([]))\<close>\<close>
  "search_settled r p =
     (case r of Some data \<Rightarrow> (p\<lparr>suggestions := data\<rparr>, []) | None \<Rightarrow> (p\<lparr>suggestions := []\<rparr>, []))"

definition handleSuggestionClick :: "place \<Rightarrow> page \<Rightarrow> page" where
  "handleSuggestionClick pl p =
     p\<lparr>selectedLocation := Some \<lparr>lat = parseFloat (place_lat pl), lng = parseFloat (lon pl)\<rparr>,
       searchQuery := display_name pl,
       suggestions := []\<rparr>"

definition handleSearchSubmit :: "page \<Rightarrow> page \<times> effect list" where
  "handleSearchSubmit p =
     (case suggestions p of
        [] \<Rightarrow> (p, [preventDefault])
      | pl # _ \<Rightarrow> (handleSuggestionClick pl p, [preventDefault]))"

subsection \<open>Submitting a report\<close>

definition report_body :: "page \<Rightarrow> coordinate \<Rightarrow> (string \<times> js_value) list" where
  "report_body p loc =
     [(''userid'', Str (userId p)),
      (''description'', Str (description p)),
      (''latt'', Num (lat loc)),
      (''long'', Num (lng loc)),
      (''rating'', Num (Finite (of_int (rating p))))]"

definition save_review :: "page \<Rightarrow> coordinate \<Rightarrow> request" where
  "save_review p loc =
     \<lparr>url = ''https://yashdb18-hersafety.hf.space/app/save_review'',
      http_method = ''POST'',
      headers = [(''Content-Type'', ''application/json'')],
      body = Some (report_body p loc)\<rparr>"

definition invalid :: "page \<Rightarrow> bool" where
  \<comment> \<open>\<^verbatim>\<open>!description || !selectedLocation || rating === 0\<close>\<close>
  "invalid p = (description p = [] \<or> selectedLocation p = None \<or> rating p = 0)"

definition validation_failed :: "page \<Rightarrow> page \<times> effect list" where
  "validation_failed p =
     (p\<lparr>submitMessage := ''Please fill all fields and select location and rating.''\<rparr>, [])"

definition handleSubmit_start :: "page \<Rightarrow> page \<times> effect list" where
  \<comment> \<open>\<^verbatim>\<open>handleSubmit\<close> up to its first \<^verbatim>\<open>await\<close>.  The inner \<open>None\<close> case is never taken:
      it is the narrowing of \<^verbatim>\<open>selectedLocation\<close> that the guard above establishes.\<close>
  "handleSubmit_start p =
     (if invalid p then validation_failed p
      else
        (case selectedLocation p of
           None \<Rightarrow> validation_failed p
         | Some loc \<Rightarrow>
             (p\<lparr>submitting := True, submitMessage := []\<rparr>,
              [console_log ''Submitting data:'', fetch (save_review p loc)])))"

definition parse_data :: "response \<Rightarrow> json \<times> effect list" where
  \<comment> \<open>\<^verbatim>\<open>data = textResponse ? JSON.parse(textResponse) : {}\<close>, with its \<^verbatim>\<open>catch\<close>.\<close>
  "parse_data r =
     (if textResponse r \<noteq> [] then
        (case JSON_parse r of
           Parsed v \<Rightarrow> (v, [])
         | SyntaxError \<Rightarrow>
             (JObject [(''status'', JString (textResponse r))], [console_error ''JSON parse error:'']))
      else (JObject [], []))"

definition get_message :: "json \<Rightarrow> string + json option" where
  \<comment> \<open>\<^verbatim>\<open>data.message\<close>: a TypeError on \<^verbatim>\<open>null\<close> (the text is V8's), the own property of
      an object, \<^verbatim>\<open>undefined\<close> (\<open>None\<close>) where there is none.\<close>
  "get_message d =
     (case d of
        JNull \<Rightarrow> Inl ''Cannot read properties of null (reading 'message')''
      | JObject kvs \<Rightarrow> Inr (map_of kvs ''message'')
      | _ \<Rightarrow> Inr None)"


definition http_error :: "response \<Rightarrow> json \<Rightarrow> string" where
  \<comment> \<open>The message of the error that leaves the \<^verbatim>\<open>try\<close> block when \<^verbatim>\<open>!response.ok\<close>:
      \<^verbatim>\<open>new Error(data.message || `HTTP error! status: ${response.status}`)\<close>, or the
      TypeError met on the way (the texts are V8's).\<close>
  "http_error r d =
     (case get_message d of
        Inl type_error \<Rightarrow> type_error
      | Inr None \<Rightarrow> ''HTTP error! status: '' @ show_nat (status r)
      | Inr (Some v) \<Rightarrow>
          if truthy_json v then
            (case ToString v of
               Some s \<Rightarrow> s
             | None \<Rightarrow> ''Cannot convert object to primitive value'')
          else ''HTTP error! status: '' @ show_nat (status r))"

definition submit_failed :: "string \<Rightarrow> page \<Rightarrow> page" where
  \<comment> \<open>The \<^verbatim>\<open>catch\<close> block followed by \<^verbatim>\<open>finally\<close>.\<close>
  "submit_failed m p =
     p\<lparr>submitMessage := ''Failed to submit report. '' @ m, submitting := False\<rparr>"

definition handleSubmit_finish :: "fetch_outcome \<Rightarrow> page \<Rightarrow> page \<times> effect list" where
  \<comment> \<open>\<^verbatim>\<open>handleSubmit\<close> from the moment the request settles.\<close>
  "handleSubmit_finish out p =
     (case out of
        rejected m \<Rightarrow> (submit_failed m p, [console_error ''Submission error:''])
      | responded r \<Rightarrow>
          (let d = fst (parse_data r);
               logs = snd (parse_data r) @ [console_log ''API Response:'']
           in if \<not> ok r then
                (submit_failed (http_error r d) p, logs @ [console_error ''Submission error:''])
              else
                (p\<lparr>submitMessage := ''Report submitted successfully!'',
                   description := [],
                   rating := 0,
                   selectedLocation := None,
                   submitting := False\<rparr>, logs)))"

definition handleSubmit :: "fetch_outcome \<Rightarrow> page \<Rightarrow> page \<times> effect list" where
  \<comment> \<open>One whole call with nothing else happening while the request is in flight.\<close>
  "handleSubmit out p =
     (if invalid p then handleSubmit_start p
      else (fst (handleSubmit_finish out (fst (handleSubmit_start p))),
            snd (handleSubmit_start p) @ snd (handleSubmit_finish out (fst (handleSubmit_start p)))))"

subsection \<open>The status line\<close>

definition status_line :: "page \<Rightarrow> (string \<times> string) option" where
  \<comment> \<open>The paragraph under the submit button: its colour class and its text.\<close>
  "status_line p =
     (if submitMessage p \<noteq> [] then
        Some (if includes_str (submitMessage p) ''Failed'' then ''text-red-500'' else ''text-green-500'',
              submitMessage p)
      else None)"

subsection \<open>The page in its environment\<close>

text \<open>
  What the user and the browser can do to a mounted page.  A button that is not
  rendered cannot be clicked: the rating buttons are those of \<^verbatim>\<open>[1, ..., 10]\<close>, a
  suggestion is clicked by its index in the rendered list, and the submit button is
  disabled while \<^verbatim>\<open>submitting\<close> holds.  The map widget is not part of the sources; its
  callback \<^verbatim>\<open>onLocationSelect\<close> is \<^verbatim>\<open>setSelectedLocation\<close> and is called with a
  coordinate.  Responses (to the submission, the search and the position request) are
  events too, and the model lets them arrive at any time.
\<close>

datatype event =
    change_description string
  | click_rating int
  | mouse_enter int
  | mouse_leave
  | change_search string
  | click_suggestion nat
  | submit_search
  | map_select coordinate
  | click_submit
  | submit_settled fetch_outcome
  | position_found coords
  | position_failed
  | search_result "place list option"

definition handle_event :: "event \<Rightarrow> page \<Rightarrow> page \<times> effect list" where
  "handle_event e p =
     (case e of
        change_description s \<Rightarrow> (p\<lparr>description := s\<rparr>, [])
      | click_rating n \<Rightarrow> (if n \<in> set [1..10] then p\<lparr>rating := n\<rparr> else p, [])
      | mouse_enter n \<Rightarrow> (if n \<in> set [1..10] then p\<lparr>hoverRating := n\<rparr> else p, [])
      | mouse_leave \<Rightarrow> (p\<lparr>hoverRating := 0\<rparr>, [])
      | change_search s \<Rightarrow> (p\<lparr>searchQuery := s\<rparr>, [])
      | click_suggestion i \<Rightarrow>
          (if i < length (suggestions p) then handleSuggestionClick (suggestions p ! i) p else p, [])
      | submit_search \<Rightarrow> handleSearchSubmit p
      | map_select c \<Rightarrow> (p\<lparr>selectedLocation := Some c\<rparr>, [])
      | click_submit \<Rightarrow> (if submitting p then (p, []) else handleSubmit_start p)
      | submit_settled out \<Rightarrow> handleSubmit_finish out p
      | position_found c \<Rightarrow> position_success c p
      | position_failed \<Rightarrow> position_error p
      | search_result r \<Rightarrow> search_settled r p)"

text \<open>
  Timers.  \<^verbatim>\<open>setTimeout\<close> returns a fresh handle and enters the callback in the table;
  \<^verbatim>\<open>clearTimeout\<close> removes the entry of a handle.  The only callback the page ever
  schedules is \<open>search_timer\<close>, so an entry stores the query that callback closes
  over.  Time is counted in milliseconds; a timer runs at the moment it falls due and
  handlers take no time.
\<close>

record timer =
  handle :: nat
  due :: nat
  captured :: string

record world =
  st :: page
  clock :: nat
  timers :: "timer list"
  next_handle :: nat
  timeout :: nat
  trace :: "(nat \<times> effect) list"

definition clearTimeout :: "nat \<Rightarrow> timer list \<Rightarrow> timer list" where
  "clearTimeout h ts = filter (\<lambda>t. handle t \<noteq> h) ts"

definition search_effect :: "world \<Rightarrow> world" where
  \<comment> \<open>The third \<^verbatim>\<open>useEffect\<close>, run because \<^verbatim>\<open>searchQuery\<close> changed: first the cleanup of
      the previous run, \<^verbatim>\<open>clearTimeout(timeout)\<close>, then
      \<^verbatim>\<open>const timeout = setTimeout(..., 300)\<close>.\<close>
  "search_effect w =
     w\<lparr>timers := clearTimeout (timeout w) (timers w)
                   @ [\<lparr>handle = next_handle w, due = clock w + 300, captured = searchQuery (st w)\<rparr>],
       timeout := next_handle w,
       next_handle := next_handle w + 1\<rparr>"

definition commit :: "page \<times> effect list \<Rightarrow> world \<Rightarrow> world" where
  \<comment> \<open>A handler has run: its state updates are rendered, its effects are recorded with
      the time, and an effect whose dependency changed is run again.\<close>
  "commit r w =
     (if searchQuery (fst r) \<noteq> searchQuery (st w) then
        search_effect (w\<lparr>st := fst r, trace := trace w @ map (Pair (clock w)) (snd r)\<rparr>)
      else w\<lparr>st := fst r, trace := trace w @ map (Pair (clock w)) (snd r)\<rparr>)"

definition fire :: "timer \<Rightarrow> world \<Rightarrow> world" where
  \<comment> \<open>A timer falls due: it leaves the table and its callback runs.\<close>
  "fire t w =
     commit (search_timer (captured t) (st w))
       (w\<lparr>clock := max (clock w) (due t), timers := clearTimeout (handle t) (timers w)\<rparr>)"

definition advance :: "nat \<Rightarrow> world \<Rightarrow> world" where
  \<comment> \<open>Time passes: the timers that fall due run, in the order they were set (all have
      the same delay).\<close>
  "advance dt w =
     (fold fire (filter (\<lambda>t. due t \<le> clock w + dt) (timers w)) w)\<lparr>clock := clock w + dt\<rparr>"

definition step :: "nat \<times> event \<Rightarrow> world \<Rightarrow> world" where
  \<comment> \<open>An event that happens \<open>dt\<close> milliseconds after the previous one.\<close>
  "step de w = commit (handle_event (snd de) (st (advance (fst de) w))) (advance (fst de) w)"

definition run :: "(nat \<times> event) list \<Rightarrow> world \<Rightarrow> world" where
  "run evs w = fold step evs w"

definition mount :: "string \<Rightarrow> string option \<Rightarrow> string option \<Rightarrow> bool \<Rightarrow> world" where
  \<comment> \<open>The first commit: the three effects run once, in source order:
      \<^verbatim>\<open>setIsClient(true)\<close>, the position request, the first debounce timer.\<close>
  "mount uid latParam lngParam has_geolocation =
     \<lparr>st = (ReportPage uid latParam lngParam)\<lparr>isClient := True\<rparr>,
      clock = 0,
      timers = [\<lparr>handle = 0, due = 300, captured = searchQuery (ReportPage uid latParam lngParam)\<rparr>],
      next_handle = 1,
      timeout = 0,
      trace = map (Pair 0) (geolocation_effect has_geolocation (ReportPage uid latParam lngParam))\<rparr>"

definition typing :: "(nat \<times> string) list \<Rightarrow> (nat \<times> event) list" where
  \<comment> \<open>Keystrokes in the search box: each a delay and the text after it.\<close>
  "typing ks = map (\<lambda>k. (fst k, change_search (snd k))) ks"


definition geolocation_requests :: "world \<Rightarrow> (nat \<times> effect) list" where
  "geolocation_requests w = filter (\<lambda>x. is_geolocation (snd x)) (trace w)"

definition debounced :: "world \<Rightarrow> bool" where
  \<comment> \<open>At most one timer is pending; it is the one the cleanup would clear, it is not
      overdue, and it closes over the current query.\<close>
  "debounced w =
     (case timers w of
        [] \<Rightarrow> True
      | [t] \<Rightarrow> handle t = timeout w \<and> clock w < due t \<and> captured t = searchQuery (st w)
      | _ \<Rightarrow> False)"

definition fresh :: "world \<Rightarrow> bool" where
  \<comment> \<open>The query has just changed: its timer has the whole delay ahead of it.\<close>
  "fresh w =
     (timers w = [\<lparr>handle = timeout w, due = clock w + 300, captured = searchQuery (st w)\<rparr>])"

subsection \<open>Examples\<close>

definition example_draft :: page where
  \<comment> \<open>The draft of the specification's example, ready to be submitted.\<close>
  "example_draft =
     (ReportPage ''u1'' None None)
       \<lparr>selectedLocation := Some \<lparr>lat = Finite (1907 / 100), lng = Finite (7287 / 100)\<rparr>,
        description := ''Pothole here'',
        rating := 7\<rparr>"



definition ok_empty :: response where
  \<comment> \<open>An empty body is never handed to \<^verbatim>\<open>JSON.parse\<close> (which would throw on it).\<close>
  "ok_empty = \<lparr>ok = True, status = 200, textResponse = [], JSON_parse = SyntaxError\<rparr>"

definition mumbai :: place where
  "mumbai = \<lparr>place_lat = ''19.07'', lon = ''72.87'', display_name = ''Mumbai''\<rparr>"


section \<open>Properties\<close>

subsection \<open>Evaluating the platform functions\<close>

lemma round_range_mid:
  assumes "1 / 1000000 \<le> \<bar>q\<bar>" and "\<bar>q\<bar> \<le> 1000000"
  shows "round_range q = Finite q"
proof -
  have lo: "(1::rat) / 2 ^ 1075 < 1 / 1000000" by simp
  have hi: "(1000000::rat) < 2 ^ 1024 - 2 ^ 970" by simp
  from assms(1) lo have "\<not> \<bar>q\<bar> \<le> 1 / 2 ^ 1075" by linarith
  moreover from assms(2) hi have "\<not> 2 ^ 1024 - 2 ^ 970 \<le> q" by linarith
  moreover from assms(2) hi have "\<not> q \<le> - (2 ^ 1024 - 2 ^ 970)" by linarith
  ultimately show ?thesis unfolding round_range_def by (simp only: if_False)
qed

lemmas parseFloat_eval =
  parseFloat_def StrUnsignedDecimalLiteral_def is_space_def is_digit_def
  digits_val_def digit_val_def scale10_def ExponentPart_def

lemma parseFloat_0: "parseFloat ''0'' = Finite 0"
  by (simp add: parseFloat_eval round_range_def)

lemma parseFloat_19_07: "parseFloat ''19.07'' = Finite (1907 / 100)"
  by (simp add: parseFloat_eval round_range_mid)

lemma parseFloat_72_87: "parseFloat ''72.87'' = Finite (7287 / 100)"
  by (simp add: parseFloat_eval round_range_mid)


subsection \<open>The two halves of \<^verbatim>\<open>handleSubmit\<close>\<close>




subsection \<open>Runs of the environment\<close>

lemma run_Nil: "run [] w = w"
  by (simp add: run_def)

lemma run_Cons: "run (e # es) w = run es (step e w)"
  by (simp add: run_def)

lemma st_commit: "st (commit r w) = fst r"
  by (simp add: commit_def search_effect_def)

lemma trace_commit: "trace (commit r w) = trace w @ map (Pair (clock w)) (snd r)"
  by (simp add: commit_def search_effect_def)


lemma st_advance: "st (advance dt w) = st (fold fire (filter (\<lambda>t. due t \<le> clock w + dt) (timers w)) w)"
  by (simp add: advance_def)

lemma st_fire: "st (fire t w) = fst (search_timer (captured t) (st w))"
  by (simp add: fire_def st_commit)

lemma searchQuery_search_timer: "searchQuery (fst (search_timer q p)) = searchQuery p"
  by (simp add: search_timer_def)

lemma rating_search_timer: "rating (fst (search_timer q p)) = rating p"
  by (simp add: search_timer_def)


lemmas world_eval =
  run_def step_def advance_def fire_def commit_def search_effect_def clearTimeout_def
  handle_event_def search_timer_def search_settled_def mount_def ReportPage_def
  queryNumber_def initialLocation_def truthy_query_def geolocation_effect_def

subsection \<open>The rating stays on the scale\<close>

text \<open>
  The rating is written by the ten buttons and by the reset after a successful
  submission, and by nothing else.
\<close>

lemma rating_fold_fire: "rating (st (fold fire ts w)) = rating (st w)"
  by (induction ts arbitrary: w) (simp_all add: st_fire rating_search_timer)

lemma rating_advance: "rating (st (advance dt w)) = rating (st w)"
  by (simp add: st_advance rating_fold_fire)

lemma rating_handle_event:
  assumes "0 \<le> rating p \<and> rating p \<le> 10"
  shows "0 \<le> rating (fst (handle_event e p)) \<and> rating (fst (handle_event e p)) \<le> 10"
  using assms
  by (cases e)
     (auto simp add: handle_event_def handleSuggestionClick_def handleSearchSubmit_def
       handleSubmit_start_def invalid_def validation_failed_def handleSubmit_finish_def submit_failed_def
       position_success_def position_error_def search_settled_def Let_def
       split: list.split option.split fetch_outcome.split)

lemma rating_step:
  assumes "0 \<le> rating (st w) \<and> rating (st w) \<le> 10"
  shows "0 \<le> rating (st (step de w)) \<and> rating (st (step de w)) \<le> 10"
  unfolding step_def st_commit
  by (rule rating_handle_event) (simp add: rating_advance assms)

lemma rating_run:
  assumes "0 \<le> rating (st w) \<and> rating (st w) \<le> 10"
  shows "0 \<le> rating (st (run evs w)) \<and> rating (st (run evs w)) \<le> 10"
  using assms
proof (induction evs arbitrary: w)
  case Nil
  then show ?case by (simp add: run_Nil)
next
  case (Cons e evs)
  show ?case unfolding run_Cons by (rule Cons.IH) (rule rating_step [OF Cons.prems])
qed

lemma rating_mount: "rating (st (mount uid a b g)) = 0"
  by (simp add: mount_def ReportPage_def)

lemma rating_reachable:
  "0 \<le> rating (st (run evs (mount uid a b g))) \<and> rating (st (run evs (mount uid a b g))) \<le> 10"
  by (rule rating_run) (simp add: rating_mount)



subsection \<open>At most one timer is pending\<close>

lemma debounced_cases:
  assumes "debounced w"
  obtains "timers w = []"
  | t where "timers w = [t]" "handle t = timeout w" "clock w < due t" "captured t = searchQuery (st w)"
  using assms unfolding debounced_def by (auto split: list.splits)

lemma debounced_commit:
  assumes "debounced w"
  shows "debounced (commit r w)"
  using assms
  by (rule debounced_cases)
     (auto simp add: debounced_def commit_def search_effect_def clearTimeout_def)

lemma fire_single:
  assumes "timers w = [t]" and "captured t = searchQuery (st w)"
  shows "fire t w =
           w\<lparr>st := fst (search_timer (captured t) (st w)),
             clock := max (clock w) (due t),
             timers := [],
             trace := trace w @ map (Pair (max (clock w) (due t))) (snd (search_timer (captured t) (st w)))\<rparr>"
  using assms
  by (simp add: fire_def commit_def searchQuery_search_timer clearTimeout_def)

lemma advance_idle:
  assumes "timers w = []"
  shows "advance dt w = w\<lparr>clock := clock w + dt\<rparr>"
  using assms by (simp add: advance_def)

lemma advance_waiting:
  assumes "timers w = [t]" and "clock w + dt < due t"
  shows "advance dt w = w\<lparr>clock := clock w + dt\<rparr>"
  using assms by (simp add: advance_def)

lemma advance_firing:
  assumes "timers w = [t]" and "captured t = searchQuery (st w)" and "due t \<le> clock w + dt"
    and "clock w \<le> due t"
  shows "advance dt w =
           w\<lparr>st := fst (search_timer (captured t) (st w)),
             clock := clock w + dt,
             timers := [],
             trace := trace w @ map (Pair (due t)) (snd (search_timer (captured t) (st w)))\<rparr>"
  using assms by (simp add: advance_def fire_single max_def)

lemma debounced_advance:
  assumes "debounced w"
  shows "debounced (advance dt w)"
  using assms
proof (rule debounced_cases)
  assume "timers w = []"
  then show ?thesis by (simp add: advance_idle debounced_def)
next
  fix t
  assume t: "timers w = [t]" "handle t = timeout w" "clock w < due t" "captured t = searchQuery (st w)"
  show ?thesis
  proof (cases "due t \<le> clock w + dt")
    case True
    with t show ?thesis by (simp add: advance_firing debounced_def)
  next
    case False
    with t show ?thesis by (simp add: advance_waiting debounced_def)
  qed
qed

lemma debounced_step: "debounced w \<Longrightarrow> debounced (step de w)"
  unfolding step_def by (intro debounced_commit debounced_advance)

lemma debounced_run: "debounced w \<Longrightarrow> debounced (run evs w)"
  by (induction evs arbitrary: w) (simp_all add: run_Nil run_Cons debounced_step)

lemma debounced_mount: "debounced (mount uid a b g)"
  by (simp add: debounced_def mount_def ReportPage_def)

lemma debounced_reachable: "debounced (run evs (mount uid a b g))"
  by (rule debounced_run) (rule debounced_mount)

lemma searchQuery_advance:
  assumes "debounced w"
  shows "searchQuery (st (advance dt w)) = searchQuery (st w)"
  using assms
proof (rule debounced_cases)
  assume "timers w = []"
  then show ?thesis by (simp add: advance_idle)
next
  fix t
  assume t: "timers w = [t]" "handle t = timeout w" "clock w < due t" "captured t = searchQuery (st w)"
  show ?thesis
  proof (cases "due t \<le> clock w + dt")
    case True
    with t show ?thesis by (simp add: advance_firing searchQuery_search_timer)
  next
    case False
    with t show ?thesis by (simp add: advance_waiting)
  qed
qed

lemma keystroke:
  assumes "debounced w" and "q \<noteq> searchQuery (st w)"
  shows "commit (handle_event (change_search q) (st w)) w =
           w\<lparr>st := (st w)\<lparr>searchQuery := q\<rparr>,
             timers := [\<lparr>handle = next_handle w, due = clock w + 300, captured = q\<rparr>],
             timeout := next_handle w,
             next_handle := next_handle w + 1\<rparr>"
  using assms(1)
  by (rule debounced_cases)
     (use assms(2) in \<open>simp_all add: commit_def handle_event_def search_effect_def clearTimeout_def\<close>)

lemma keystroke_fresh:
  assumes "debounced w" and "q \<noteq> searchQuery (st w)"
  shows "fresh (commit (handle_event (change_search q) (st w)) w)"
  by (simp add: keystroke [OF assms] fresh_def)




lemma fresh_fires:
  assumes "fresh w" and "300 \<le> wait"
  shows "advance wait w =
           w\<lparr>st := fst (search_timer (searchQuery (st w)) (st w)),
             clock := clock w + wait,
             timers := [],
             trace := trace w @ map (Pair (clock w + 300)) (snd (search_timer (searchQuery (st w)) (st w)))\<rparr>"
proof -
  have "advance wait w =
           w\<lparr>st := fst (search_timer (captured \<lparr>handle = timeout w, due = clock w + 300, captured = searchQuery (st w)\<rparr>) (st w)),
             clock := clock w + wait,
             timers := [],
             trace := trace w @ map (Pair (due \<lparr>handle = timeout w, due = clock w + 300, captured = searchQuery (st w)\<rparr>))
               (snd (search_timer (captured \<lparr>handle = timeout w, due = clock w + 300, captured = searchQuery (st w)\<rparr>) (st w)))\<rparr>"
    using assms by (intro advance_firing) (simp_all add: fresh_def)
  then show ?thesis by simp
qed

subsection \<open>Only mounting asks for the position\<close>

lemma geo_map_Pair:
  "filter (\<lambda>x. is_geolocation (snd x)) (map (Pair c) es) = map (Pair c) (filter is_geolocation es)"
  by (induction es) simp_all

lemma no_geo_handle_event: "filter is_geolocation (snd (handle_event e p)) = []"
  by (cases e)
     (auto simp add: handle_event_def handleSearchSubmit_def handleSubmit_start_def invalid_def
       validation_failed_def handleSubmit_finish_def parse_data_def position_success_def
       position_error_def search_settled_def is_geolocation_def Let_def
       split: list.split option.split fetch_outcome.split parse_outcome.split)

lemma no_geo_search_timer: "filter is_geolocation (snd (search_timer q p)) = []"
  by (simp add: search_timer_def is_geolocation_def)

lemma geo_commit:
  "filter is_geolocation (snd r) = [] \<Longrightarrow> geolocation_requests (commit r w) = geolocation_requests w"
  by (simp add: geolocation_requests_def trace_commit geo_map_Pair)

lemma geo_fire: "geolocation_requests (fire t w) = geolocation_requests w"
  unfolding fire_def
  by (subst geo_commit) (simp_all add: no_geo_search_timer geolocation_requests_def)

lemma geo_fold_fire: "geolocation_requests (fold fire ts w) = geolocation_requests w"
  by (induction ts arbitrary: w) (simp_all add: geo_fire)

lemma geo_advance: "geolocation_requests (advance dt w) = geolocation_requests w"
proof -
  have "geolocation_requests (advance dt w) =
        geolocation_requests (fold fire (filter (\<lambda>t. due t \<le> clock w + dt) (timers w)) w)"
    by (simp add: advance_def geolocation_requests_def)
  then show ?thesis by (simp add: geo_fold_fire)
qed

lemma geo_step: "geolocation_requests (step de w) = geolocation_requests w"
  unfolding step_def by (simp add: geo_commit no_geo_handle_event geo_advance)

lemma geo_run: "geolocation_requests (run evs w) = geolocation_requests w"
  by (induction evs arbitrary: w) (simp_all add: run_Nil run_Cons geo_step)

lemma geo_mount:
  "geolocation_requests (mount uid a b g) =
     (if g \<and> \<not> truthy_query (queryNumber a) \<and> \<not> truthy_query (queryNumber b)
      then [(0, getCurrentPosition True)] else [])"
  by (simp add: geolocation_requests_def mount_def geolocation_effect_def ReportPage_def
      is_geolocation_def)

subsection \<open>Validation before submitting\<close>

text \<open>
  C1.  In every state the page can reach, \<^verbatim>\<open>handleSubmit\<close> issues a request exactly when
  the description is not empty, a coordinate is selected and the rating is between 1
  and 10; otherwise all it does is set the validation message, and it has no effect
  outside the page.  The source tests \<^verbatim>\<open>rating === 0\<close>; that this is the same as leaving
  the scale is the invariant \<open>rating_reachable\<close>.
\<close>

theorem submit_needs_complete_draft:
  "(list_ex is_fetch (snd (handleSubmit out (st (run evs (mount uid a b g))))) \<longleftrightarrow>
      description (st (run evs (mount uid a b g))) \<noteq> [] \<and>
      selectedLocation (st (run evs (mount uid a b g))) \<noteq> None \<and>
      1 \<le> rating (st (run evs (mount uid a b g))) \<and>
      rating (st (run evs (mount uid a b g))) \<le> 10) \<and>
   (description (st (run evs (mount uid a b g))) = [] \<or>
    selectedLocation (st (run evs (mount uid a b g))) = None \<or>
    rating (st (run evs (mount uid a b g))) < 1 \<or> 10 < rating (st (run evs (mount uid a b g))) \<longrightarrow>
      handleSubmit out (st (run evs (mount uid a b g))) =
        ((st (run evs (mount uid a b g)))
           \<lparr>submitMessage := ''Please fill all fields and select location and rating.''\<rparr>, []) \<and>
      handleSubmit_start (st (run evs (mount uid a b g))) =
        ((st (run evs (mount uid a b g)))
           \<lparr>submitMessage := ''Please fill all fields and select location and rating.''\<rparr>, []))"
proof -
  define p where "p = st (run evs (mount uid a b g))"
  have r: "0 \<le> rating p \<and> rating p \<le> 10"
    unfolding p_def by (rule rating_reachable)
  have no_fetch: "\<not> list_ex is_fetch (snd (handleSubmit_finish out p'))" for p'
    by (cases out)
       (simp_all add: handleSubmit_finish_def parse_data_def is_fetch_def Let_def
         split: parse_outcome.split)
  have "(list_ex is_fetch (snd (handleSubmit out p)) \<longleftrightarrow>
          description p \<noteq> [] \<and> selectedLocation p \<noteq> None \<and> 1 \<le> rating p \<and> rating p \<le> 10) \<and>
        (description p = [] \<or> selectedLocation p = None \<or> rating p < 1 \<or> 10 < rating p \<longrightarrow>
          handleSubmit out p =
            (p\<lparr>submitMessage := ''Please fill all fields and select location and rating.''\<rparr>, []) \<and>
          handleSubmit_start p =
            (p\<lparr>submitMessage := ''Please fill all fields and select location and rating.''\<rparr>, []))"
    using r no_fetch
    by (cases "selectedLocation p")
       (auto simp add: handleSubmit_def handleSubmit_start_def invalid_def validation_failed_def
         is_fetch_def)
  then show ?thesis unfolding p_def .
qed

text \<open>
  A complete draft, entered through the user interface, is sent; the empty draft of a
  fresh page is refused.
\<close>

theorem submit_needs_complete_draft_witness:
  "list_ex is_fetch (snd (handleSubmit (responded ok_empty) (st (run
      [(0, change_description ''Pothole here''),
       (0, map_select \<lparr>lat = Finite (1907 / 100), lng = Finite (7287 / 100)\<rparr>),
       (0, click_rating 7)] (mount ''u1'' None None True))))) \<and>
   handleSubmit (responded ok_empty) (st (run [] (mount ''u1'' None None True))) =
     ((st (run [] (mount ''u1'' None None True)))
        \<lparr>submitMessage := ''Please fill all fields and select location and rating.''\<rparr>, [])"
  using submit_needs_complete_draft [of "responded ok_empty"
      "[(0, change_description ''Pothole here''),
        (0, map_select \<lparr>lat = Finite (1907 / 100), lng = Finite (7287 / 100)\<rparr>),
        (0, click_rating 7)]" "''u1''" None None True]
    submit_needs_complete_draft [of "responded ok_empty" "[]" "''u1''" None None True]
  by (simp add: world_eval)

subsection \<open>A successful submission\<close>

text \<open>
  C2.  A valid draft makes \<^verbatim>\<open>handleSubmit\<close> issue exactly one request, a POST whose body
  has the fields \<open>userid\<close>, \<open>description\<close>, \<open>latt\<close>, \<open>long\<close> and \<open>rating\<close>, in this order,
  holding the user identifier, the description, the latitude, the longitude and the
  rating.  On a response with \<^verbatim>\<open>response.ok\<close>, whatever its body, the success message is
  shown and description, rating and coordinate are reset; this also holds when the page
  changed while the request was in flight.  An empty body is read as the empty object.
\<close>

theorem handleSubmit_success:
  assumes "description p \<noteq> []" and "selectedLocation p = Some loc" and "rating p \<noteq> 0"
  shows "filter is_fetch (snd (handleSubmit out p)) =
           [fetch \<lparr>url = ''https://yashdb18-hersafety.hf.space/app/save_review'',
                   http_method = ''POST'',
                   headers = [(''Content-Type'', ''application/json'')],
                   body = Some [(''userid'', Str (userId p)),
                                (''description'', Str (description p)),
                                (''latt'', Num (lat loc)),
                                (''long'', Num (lng loc)),
                                (''rating'', Num (Finite (of_int (rating p))))]\<rparr>] \<and>
         (ok r \<longrightarrow>
            fst (handleSubmit (responded r) p) =
              p\<lparr>submitMessage := ''Report submitted successfully!'', description := [],
                rating := 0, selectedLocation := None, submitting := False\<rparr> \<and>
            fst (handleSubmit_finish (responded r) p') =
              p'\<lparr>submitMessage := ''Report submitted successfully!'', description := [],
                 rating := 0, selectedLocation := None, submitting := False\<rparr>) \<and>
         (textResponse r = [] \<longrightarrow> fst (parse_data r) = JObject [])"
  using assms
  by (cases out)
     (simp_all add: handleSubmit_def handleSubmit_start_def invalid_def handleSubmit_finish_def
       submit_failed_def is_fetch_def save_review_def report_body_def parse_data_def Let_def
       split: parse_outcome.split)

text \<open>
  The specification's example: the draft of user \<open>u1\<close>, answered by a 200 with an
  empty body.
\<close>

theorem handleSubmit_success_witness:
  "filter is_fetch (snd (handleSubmit (responded ok_empty) example_draft)) =
     [fetch \<lparr>url = ''https://yashdb18-hersafety.hf.space/app/save_review'',
             http_method = ''POST'',
             headers = [(''Content-Type'', ''application/json'')],
             body = Some [(''userid'', Str ''u1''),
                          (''description'', Str ''Pothole here''),
                          (''latt'', Num (Finite (1907 / 100))),
                          (''long'', Num (Finite (7287 / 100))),
                          (''rating'', Num (Finite 7))]\<rparr>] \<and>
   fst (handleSubmit (responded ok_empty) example_draft) =
     (ReportPage ''u1'' None None)\<lparr>submitMessage := ''Report submitted successfully!''\<rparr> \<and>
   fst (parse_data ok_empty) = JObject []"
  using handleSubmit_success [of example_draft "\<lparr>lat = Finite (1907 / 100), lng = Finite (7287 / 100)\<rparr>"
      "responded ok_empty" ok_empty example_draft]
  by (simp add: example_draft_def ok_empty_def ReportPage_def queryNumber_def initialLocation_def
      truthy_query_def)

subsection \<open>A failed submission\<close>




subsection \<open>Coordinates from the query string\<close>

text \<open>
  When both parameters give a truthy number, the page starts at that pair and does
  not ask for the position.
\<close>

lemma query_coordinate_used:
  assumes "queryNumber latParam = Some x" and "queryNumber lngParam = Some y"
    and "truthy_number x" and "truthy_number y"
  shows "selectedLocation (st (mount uid latParam lngParam g)) = Some \<lparr>lat = x, lng = y\<rparr> \<and>
         geolocation_requests (run evs (mount uid latParam lngParam g)) = []"
proof -
  have "selectedLocation (st (mount uid latParam lngParam g)) = Some \<lparr>lat = x, lng = y\<rparr>"
    using assms by (simp add: mount_def ReportPage_def initialLocation_def truthy_query_def)
  moreover have "geolocation_requests (run evs (mount uid latParam lngParam g)) = []"
    using assms by (simp add: geo_run geo_mount truthy_query_def)
  ultimately show ?thesis by simp
qed

text \<open>
  C4.  The claim holds for every pair of numbers but those with a zero: the guard
  \<^verbatim>\<open>latFromQuery && lngFromQuery\<close> is a truthiness test, and \<^verbatim>\<open>0\<close> is falsy.  With
  \<^verbatim>\<open>?lat=0&lng=72.87\<close> both parameters parse, the page starts without a coordinate, and
  the position is not requested either; with \<^verbatim>\<open>?lat=0&lng=0\<close> the page starts without a
  coordinate and the position is requested.
\<close>

theorem query_zero_latitude:
  "queryNumber (Some ''0'') = Some (Finite 0) \<and>
   queryNumber (Some ''72.87'') = Some (Finite (7287 / 100)) \<and>
   selectedLocation (ReportPage ''u1'' (Some ''0'') (Some ''72.87'')) = None \<and>
   geolocation_effect True (ReportPage ''u1'' (Some ''0'') (Some ''72.87'')) = [] \<and>
   selectedLocation (ReportPage ''u1'' (Some ''0'') (Some ''0'')) = None \<and>
   geolocation_effect True (ReportPage ''u1'' (Some ''0'') (Some ''0'')) = [getCurrentPosition True]"
  by (simp add: queryNumber_def parseFloat_0 parseFloat_72_87 ReportPage_def initialLocation_def
      truthy_query_def truthy_number_def geolocation_effect_def)

subsection \<open>The position request\<close>




subsection \<open>Short queries\<close>

text \<open>
  The claim C6 has the suggestion list cleared immediately.  The source clears it in
  the timer callback, so the list is still there right after the keystroke.
\<close>

theorem suggestions_survive_short_query:
  "length ''mu'' \<le> 2 \<and>
   suggestions (st (step (100, change_search ''mu'')
      (run [(0, change_search ''mum''), (350, search_result (Some [mumbai]))]
         (mount ''u1'' None None True)))) = [mumbai]"
  by (simp add: world_eval)

text \<open>
  C6, amended.  When the query changes to a text of at most two code units and
  nothing else happens for 300 ms, the timer of that change clears the suggestion
  list, whatever it held, and no request is issued: the only effects recorded are those
  from before the keystroke.
\<close>

theorem short_query_cleared_by_timer:
  assumes "length q \<le> 2" and "q \<noteq> searchQuery (st (run evs (mount uid a b g)))" and "300 \<le> wait"
  shows "suggestions (st (advance wait (step (d, change_search q) (run evs (mount uid a b g))))) = [] \<and>
         trace (advance wait (step (d, change_search q) (run evs (mount uid a b g)))) =
           trace (advance d (run evs (mount uid a b g))) \<and>
         search_timer q p = (p\<lparr>suggestions := []\<rparr>, [])"
proof -
  define w where "w = advance d (run evs (mount uid a b g))"
  have deb: "debounced w"
    unfolding w_def by (intro debounced_advance debounced_reachable)
  have q: "q \<noteq> searchQuery (st w)"
    unfolding w_def using assms(2) by (simp add: searchQuery_advance debounced_reachable)
  have s: "step (d, change_search q) (run evs (mount uid a b g)) =
           commit (handle_event (change_search q) (st w)) w"
    by (simp add: step_def w_def)
  have f: "fresh (commit (handle_event (change_search q) (st w)) w)"
    using deb q by (rule keystroke_fresh)
  show ?thesis
    unfolding s fresh_fires [OF f assms(3)] w_def [symmetric]
    using assms(1) by (simp add: keystroke [OF deb q] search_timer_def)
qed

theorem short_query_cleared_by_timer_witness:
  "suggestions (st (advance 300 (step (100, change_search ''mu'')
      (run [(0, change_search ''mum''), (350, search_result (Some [mumbai]))]
         (mount ''u1'' None None True))))) = [] \<and>
   trace (advance 300 (step (100, change_search ''mu'')
      (run [(0, change_search ''mum''), (350, search_result (Some [mumbai]))]
         (mount ''u1'' None None True)))) =
     [(0, getCurrentPosition True), (300, fetch (search_request ''mum''))]"
  using short_query_cleared_by_timer [of "''mu''"
      "[(0, change_search ''mum''), (350, search_result (Some [mumbai]))]" "''u1''" None None True
      300 100 "ReportPage ''u1'' None None"]
  by (simp add: world_eval)

subsection \<open>Debouncing\<close>



lemma debounce_gap_300:
  "trace (advance 300 (run (typing [(0, ''mum''), (100, ''mumb''), (300, ''mumba'')])
            (mount ''u1'' None None False))) =
     [(400, fetch (search_request ''mumb'')), (700, fetch (search_request ''mumba''))]"
  by (simp add: world_eval typing_def)

subsection \<open>Selecting a suggestion\<close>

text \<open>
  C8.  Submitting the search form leaves the page as it is when there are no
  suggestions, and otherwise does what a click on the first suggestion does.  That
  click sets the coordinate to \<^verbatim>\<open>parseFloat\<close> of the suggestion's \<open>lat\<close> and \<open>lon\<close>, the
  query to its display name, and empties the list.
\<close>

theorem search_submit_selects_first:
  "(suggestions p = [] \<longrightarrow> fst (handleSearchSubmit p) = p) \<and>
   (suggestions p = pl # rest \<longrightarrow> fst (handleSearchSubmit p) = handleSuggestionClick pl p) \<and>
   selectedLocation (handleSuggestionClick sel p) =
     Some \<lparr>lat = parseFloat (place_lat sel), lng = parseFloat (lon sel)\<rparr> \<and>
   searchQuery (handleSuggestionClick sel p) = display_name sel \<and>
   suggestions (handleSuggestionClick sel p) = []"
  by (simp add: handleSearchSubmit_def handleSuggestionClick_def)

theorem search_submit_selects_first_witness:
  "fst (handleSearchSubmit (ReportPage ''u1'' None None)) = ReportPage ''u1'' None None \<and>
   fst (handleSearchSubmit ((ReportPage ''u1'' None None)\<lparr>suggestions := [mumbai]\<rparr>)) =
     (ReportPage ''u1'' None None)
       \<lparr>selectedLocation := Some \<lparr>lat = Finite (1907 / 100), lng = Finite (7287 / 100)\<rparr>,
        searchQuery := ''Mumbai''\<rparr>"
  using search_submit_selects_first [of "ReportPage ''u1'' None None" mumbai "[]" mumbai]
    search_submit_selects_first [of "(ReportPage ''u1'' None None)\<lparr>suggestions := [mumbai]\<rparr>"
      mumbai "[]" mumbai]
  by (simp add: handleSuggestionClick_def mumbai_def ReportPage_def parseFloat_19_07
      parseFloat_72_87)

subsection \<open>The status line\<close>

text \<open>
  Every message \<^verbatim>\<open>handleSubmit\<close> sets after a failed request starts with \<open>Failed\<close>.
\<close>

lemma submit_failed_includes_Failed:
  "includes_str (submitMessage (submit_failed m p)) ''Failed''"
  by (simp add: submit_failed_def)

text \<open>
  C9.  The status line is red when the message includes \<open>Failed\<close> and green
  otherwise.  The validation message does not include it, so a refused draft is shown
  in the colour of a success, while a failed request is shown in red.
\<close>

theorem validation_message_styled_green:
  "submitMessage (fst (handleSubmit_start (ReportPage ''u1'' None None))) =
     ''Please fill all fields and select location and rating.'' \<and>
   status_line (fst (handleSubmit_start (ReportPage ''u1'' None None))) =
     Some (''text-green-500'', ''Please fill all fields and select location and rating.'') \<and>
   status_line (fst (handleSubmit_finish (responded ok_empty) example_draft)) =
     Some (''text-green-500'', ''Report submitted successfully!'') \<and>
   status_line (fst (handleSubmit_finish (rejected ''Failed to fetch'') example_draft)) =
     Some (''text-red-500'', ''Failed to submit report. Failed to fetch'')"
  by (simp add: handleSubmit_start_def invalid_def validation_failed_def ReportPage_def status_line_def
      handleSubmit_finish_def submit_failed_def ok_empty_def example_draft_def Let_def parse_data_def)

subsection \<open>What a submission leaves alone\<close>

text \<open>
  C10.  \<^verbatim>\<open>handleSubmit\<close> changes at most the description, the rating, the coordinate,
  the message and the submitting flag; the query, the suggestions, the hover rating
  and the user identifier are as before.  This holds for the whole call whatever the
  outcome of the request, and for each of its two halves on the page it finds.
\<close>

theorem handleSubmit_frame:
  "fst (handleSubmit out p) =
     p\<lparr>description := description (fst (handleSubmit out p)),
       rating := rating (fst (handleSubmit out p)),
       selectedLocation := selectedLocation (fst (handleSubmit out p)),
       submitMessage := submitMessage (fst (handleSubmit out p)),
       submitting := submitting (fst (handleSubmit out p))\<rparr> \<and>
   searchQuery (fst (handleSubmit out p)) = searchQuery p \<and>
   suggestions (fst (handleSubmit out p)) = suggestions p \<and>
   hoverRating (fst (handleSubmit out p)) = hoverRating p \<and>
   userId (fst (handleSubmit out p)) = userId p \<and>
   searchQuery (fst (handleSubmit_start p)) = searchQuery p \<and>
   suggestions (fst (handleSubmit_start p)) = suggestions p \<and>
   hoverRating (fst (handleSubmit_start p)) = hoverRating p \<and>
   userId (fst (handleSubmit_start p)) = userId p \<and>
   searchQuery (fst (handleSubmit_finish out p)) = searchQuery p \<and>
   suggestions (fst (handleSubmit_finish out p)) = suggestions p \<and>
   hoverRating (fst (handleSubmit_finish out p)) = hoverRating p \<and>
   userId (fst (handleSubmit_finish out p)) = userId p"
  by (cases out; cases "selectedLocation p")
     (simp_all add: handleSubmit_def handleSubmit_start_def invalid_def handleSubmit_finish_def
       validation_failed_def submit_failed_def Let_def)

theorem handleSubmit_frame_witness:
  "searchQuery (fst (handleSubmit (responded ok_empty) (example_draft\<lparr>searchQuery := ''Mumbai''\<rparr>))) =
     ''Mumbai'' \<and>
   userId (fst (handleSubmit (responded ok_empty) (example_draft\<lparr>searchQuery := ''Mumbai''\<rparr>))) = ''u1''"
  using handleSubmit_frame [of "responded ok_empty" "example_draft\<lparr>searchQuery := ''Mumbai''\<rparr>"]
  by (simp add: example_draft_def ReportPage_def)

end
